theory Spec2Isabelle
  imports Main "HOL-Library.Word"
begin

section \<open>Failures\<close>

text \<open>
  The status codes of the accelerator runtime that the calls of
  \<^verbatim>\<open>cuda_utils.cuh\<close> can return.
\<close>

datatype cudaError_t =
    cudaSuccess
  | cudaErrorMemoryAllocation
  | cudaErrorInvalidValue
  | cudaErrorInvalidDevicePointer

text \<open>
  Every way in which a call of the header does not return:
  \<^item> \<open>Signal err\<close>: \<^verbatim>\<open>HandleError\<close> saw a status other than \<^verbatim>\<open>cudaSuccess\<close> and
    raised \<^verbatim>\<open>SIGSEGV\<close> (only when \<^verbatim>\<open>DEBUG_CUDA\<close> is defined);
  \<^item> \<open>ExitFailure\<close>: \<^verbatim>\<open>exit(EXIT_FAILURE)\<close> in \<^verbatim>\<open>free_host\<close> (only with \<^verbatim>\<open>DEBUG_CUDA\<close>);
  \<^item> \<open>BadAlloc\<close>: \<^verbatim>\<open>new T[size]\<close> threw;
  \<^item> \<open>UndefinedBehaviour\<close>: the C++ has no defined result (a host access outside
    every live allocation, \<^verbatim>\<open>delete []\<close> of a pointer that \<^verbatim>\<open>new []\<close> did not return,
    a \<^verbatim>\<open>std::vector\<close> index or iterator range outside the vector).
\<close>

datatype error =
    Signal cudaError_t
  | ExitFailure
  | BadAlloc
  | UndefinedBehaviour

definition and_then :: "error + 'a \<Rightarrow> ('a \<Rightarrow> error + 'b) \<Rightarrow> error + 'b" where
  "and_then r f = (case r of Inl e \<Rightarrow> Inl e | Inr x \<Rightarrow> f x)"

section \<open>Host and device memory\<close>

text \<open>
  One address space: the contents of every address, the live allocations (base address
  and number of elements), the highest address handed out so far and the number of
  elements that may be allocated at once. Addresses and counts are in elements of the
  buffer's type \<^verbatim>\<open>T\<close>, so \<^verbatim>\<open>p + k\<close> on a \<^verbatim>\<open>T*\<close> is addition and the factor
  \<^verbatim>\<open>sizeof(T)\<close> of the byte counts does not appear; address \<open>0\<close> is the null pointer.
  The contents are of an arbitrary type \<open>'v\<close>: the header only moves them.
\<close>

record 'v mem =
  cells :: "nat \<Rightarrow> 'v"
  blocks :: "(nat \<times> nat) list"
  brk :: nat
  capacity :: nat

definition used :: "'v mem \<Rightarrow> nat" where
  "used m = sum_list (map snd (blocks m))"

definition in_block :: "nat \<Rightarrow> nat \<Rightarrow> nat \<times> nat \<Rightarrow> bool" where
  "in_block p n blk = (fst blk \<le> p \<and> p + n \<le> fst blk + snd blk)"

definition valid_range :: "'v mem \<Rightarrow> nat \<Rightarrow> nat \<Rightarrow> bool" where
  "valid_range m p n = list_ex (in_block p n) (blocks m)"

definition is_live :: "'v mem \<Rightarrow> nat \<Rightarrow> bool" where
  "is_live m p = (p \<in> set (map fst (blocks m)))"

text \<open>
  Allocation hands out the addresses above \<open>brk\<close> (never address \<open>0\<close>) and fails when
  the capacity is exhausted; the new cells keep whatever they held.
\<close>

definition mem_alloc :: "'v mem \<Rightarrow> nat \<Rightarrow> (nat \<times> 'v mem) option" where
  "mem_alloc m n =
     (if used m + n \<le> capacity m
      then Some (Suc (brk m),
                 m\<lparr>blocks := (Suc (brk m), n) # blocks m, brk := Suc (brk m) + n\<rparr>)
      else None)"

definition mem_free :: "'v mem \<Rightarrow> nat \<Rightarrow> 'v mem option" where
  "mem_free m p =
     (if is_live m p then Some (m\<lparr>blocks := filter (\<lambda>blk. fst blk \<noteq> p) (blocks m)\<rparr>)
      else None)"

definition copy_cells ::
  "(nat \<Rightarrow> 'v) \<Rightarrow> nat \<Rightarrow> (nat \<Rightarrow> 'v) \<Rightarrow> nat \<Rightarrow> nat \<Rightarrow> nat \<Rightarrow> 'v" where
  "copy_cells src s dst d n = (\<lambda>a. if d \<le> a \<and> a < d + n then src (s + (a - d)) else dst a)"

record 'v world =
  host :: "'v mem"
  dev :: "'v mem"

subsection \<open>The runtime calls the header makes\<close>

text \<open>
  \<^verbatim>\<open>cudaMalloc\<close>, \<^verbatim>\<open>cudaFree\<close> and \<^verbatim>\<open>cudaMemcpy\<close> belong to the accelerator runtime
  and \<^verbatim>\<open>new []\<close>, \<^verbatim>\<open>delete []\<close> to the language; neither is code of the repository.
  They are modelled by their documented behaviour: \<^verbatim>\<open>cudaMalloc\<close> stores the new
  pointer or reports \<^verbatim>\<open>cudaErrorMemoryAllocation\<close> and stores nothing; \<^verbatim>\<open>cudaFree\<close>
  does nothing on a null pointer, releases the allocation that starts at the pointer,
  and reports an error for any other pointer; \<^verbatim>\<open>cudaMemcpy\<close> of no elements does
  nothing, reports \<^verbatim>\<open>cudaErrorInvalidValue\<close> when the device range is not inside a live
  device allocation, and reads or writes the host range, which has no defined result
  when that range is not inside a live host allocation.
\<close>

definition cudaMalloc :: "'v world \<Rightarrow> nat \<Rightarrow> nat \<Rightarrow> cudaError_t \<times> nat \<times> 'v world" where
  "cudaMalloc w devPtr n =
     (case mem_alloc (dev w) n of
        None \<Rightarrow> (cudaErrorMemoryAllocation, devPtr, w)
      | Some (p, m) \<Rightarrow> (cudaSuccess, p, w\<lparr>dev := m\<rparr>))"

definition cudaFree :: "'v world \<Rightarrow> nat \<Rightarrow> cudaError_t \<times> 'v world" where
  "cudaFree w devPtr =
     (if devPtr = 0 then (cudaSuccess, w)
      else case mem_free (dev w) devPtr of
             None \<Rightarrow> (cudaErrorInvalidDevicePointer, w)
           | Some m \<Rightarrow> (cudaSuccess, w\<lparr>dev := m\<rparr>))"

datatype cudaMemcpyKind = cudaMemcpyHostToDevice | cudaMemcpyDeviceToHost

definition cudaMemcpy ::
  "'v world \<Rightarrow> nat \<Rightarrow> nat \<Rightarrow> nat \<Rightarrow> cudaMemcpyKind \<Rightarrow> error + (cudaError_t \<times> 'v world)" where
  "cudaMemcpy w dst src n kind =
     (if n = 0 then Inr (cudaSuccess, w)
      else case kind of
        cudaMemcpyHostToDevice \<Rightarrow>
          if \<not> valid_range (dev w) dst n then Inr (cudaErrorInvalidValue, w)
          else if \<not> valid_range (host w) src n then Inl UndefinedBehaviour
          else Inr (cudaSuccess,
                 w\<lparr>dev := (dev w)\<lparr>cells :=
                      copy_cells (cells (host w)) src (cells (dev w)) dst n\<rparr>\<rparr>)
      | cudaMemcpyDeviceToHost \<Rightarrow>
          if \<not> valid_range (dev w) src n then Inr (cudaErrorInvalidValue, w)
          else if \<not> valid_range (host w) dst n then Inl UndefinedBehaviour
          else Inr (cudaSuccess,
                 w\<lparr>host := (host w)\<lparr>cells :=
                      copy_cells (cells (dev w)) src (cells (host w)) dst n\<rparr>\<rparr>))"

definition new_array :: "'v world \<Rightarrow> nat \<Rightarrow> error + (nat \<times> 'v world)" where
  "new_array w n =
     (case mem_alloc (host w) n of
        None \<Rightarrow> Inl BadAlloc
      | Some (p, m) \<Rightarrow> Inr (p, w\<lparr>host := m\<rparr>))"

definition delete_array :: "'v world \<Rightarrow> nat \<Rightarrow> error + 'v world" where
  "delete_array w p =
     (if p = 0 then Inr w
      else case mem_free (host w) p of
             None \<Rightarrow> Inl UndefinedBehaviour
           | Some m \<Rightarrow> Inr (w\<lparr>host := m\<rparr>))"

section \<open>Error handling and the copy helpers\<close>

text \<open>
  \<^verbatim>\<open>HANDLE_ERROR(err)\<close> is \<^verbatim>\<open>HandleError(err, __FILE__, __LINE__)\<close> when
  \<^verbatim>\<open>DEBUG_CUDA\<close> is defined and \<^verbatim>\<open>(err)\<close>, which does nothing, otherwise. The build
  flag is the parameter \<open>debug\<close> of every operation below; the \<^verbatim>\<open>printf\<close> warnings of
  the debug build change no state and are left out.
\<close>

definition HandleError :: "cudaError_t \<Rightarrow> error + unit" where
  "HandleError err = (if err \<noteq> cudaSuccess then Inl (Signal err) else Inr ())"

definition HANDLE_ERROR :: "bool \<Rightarrow> cudaError_t \<Rightarrow> error + unit" where
  "HANDLE_ERROR debug err = (if debug then HandleError err else Inr ())"

definition cudaCpyHostToDevice ::
  "bool \<Rightarrow> 'v world \<Rightarrow> nat \<Rightarrow> nat \<Rightarrow> 64 word \<Rightarrow> error + 'v world" where
  "cudaCpyHostToDevice debug w h_p d_p n =
     and_then (cudaMemcpy w d_p h_p (unat n) cudaMemcpyHostToDevice)
       (\<lambda>(err, w'). and_then (HANDLE_ERROR debug err) (\<lambda>_. Inr w'))"

definition cudaCpyDeviceToHost ::
  "bool \<Rightarrow> 'v world \<Rightarrow> nat \<Rightarrow> nat \<Rightarrow> 64 word \<Rightarrow> error + 'v world" where
  "cudaCpyDeviceToHost debug w d_p h_p n =
     and_then (cudaMemcpy w h_p d_p (unat n) cudaMemcpyDeviceToHost)
       (\<lambda>(err, w'). and_then (HANDLE_ERROR debug err) (\<lambda>_. Inr w'))"

section \<open>CudaGlobalPtr\<close>

text \<open>
  The fields of \<^verbatim>\<open>CudaGlobalPtr<T>\<close>; \<^verbatim>\<open>size\<close> is \<open>size_f\<close> here, since \<open>size\<close> is a
  constant of HOL.
\<close>

record CudaGlobalPtr =
  size_f :: "64 word"
  h_ptr :: nat
  d_ptr :: nat
  h_do_free :: bool
  d_do_free :: bool

text \<open>The four constructors, named by their number of arguments.\<close>

definition CudaGlobalPtr_0 :: CudaGlobalPtr where
  "CudaGlobalPtr_0 =
     \<lparr>size_f = 0, h_ptr = 0, d_ptr = 0, h_do_free = False, d_do_free = False\<rparr>"

definition CudaGlobalPtr_1 :: "'v world \<Rightarrow> 64 word \<Rightarrow> error + ('v world \<times> CudaGlobalPtr)" where
  "CudaGlobalPtr_1 w n =
     and_then (new_array w (unat n))
       (\<lambda>(p, w'). Inr (w', \<lparr>size_f = n, h_ptr = p, d_ptr = 0,
                            h_do_free = True, d_do_free = False\<rparr>))"

definition CudaGlobalPtr_2 :: "nat \<Rightarrow> 64 word \<Rightarrow> CudaGlobalPtr" where
  "CudaGlobalPtr_2 h_start n =
     \<lparr>size_f = n, h_ptr = h_start, d_ptr = 0, h_do_free = False, d_do_free = False\<rparr>"

definition CudaGlobalPtr_3 :: "nat \<Rightarrow> nat \<Rightarrow> 64 word \<Rightarrow> CudaGlobalPtr" where
  "CudaGlobalPtr_3 h_start d_start n =
     \<lparr>size_f = n, h_ptr = h_start, d_ptr = d_start, h_do_free = False, d_do_free = False\<rparr>"

definition device_alloc ::
  "bool \<Rightarrow> 'v world \<Rightarrow> CudaGlobalPtr \<Rightarrow> error + ('v world \<times> CudaGlobalPtr)" where
  "device_alloc debug w b =
     (let b1 = b\<lparr>d_do_free := True\<rparr>;
          (err, p, w') = cudaMalloc w (d_ptr b1) (unat (size_f b1))
      in and_then (HANDLE_ERROR debug err) (\<lambda>_. Inr (w', b1\<lparr>d_ptr := p\<rparr>)))"

definition device_alloc_size ::
  "bool \<Rightarrow> 'v world \<Rightarrow> CudaGlobalPtr \<Rightarrow> 64 word \<Rightarrow> error + ('v world \<times> CudaGlobalPtr)" where
  "device_alloc_size debug w b newSize = device_alloc debug w (b\<lparr>size_f := newSize\<rparr>)"

definition host_alloc :: "'v world \<Rightarrow> CudaGlobalPtr \<Rightarrow> error + ('v world \<times> CudaGlobalPtr)" where
  "host_alloc w b =
     (let b1 = b\<lparr>h_do_free := True\<rparr>
      in and_then (new_array w (unat (size_f b1))) (\<lambda>(p, w'). Inr (w', b1\<lparr>h_ptr := p\<rparr>)))"

definition cp_to_device ::
  "bool \<Rightarrow> 'v world \<Rightarrow> CudaGlobalPtr \<Rightarrow> error + ('v world \<times> CudaGlobalPtr)" where
  "cp_to_device debug w b =
     and_then (cudaCpyHostToDevice debug w (h_ptr b) (d_ptr b) (size_f b)) (\<lambda>w'. Inr (w', b))"

definition cp_to_device_ptr ::
  "bool \<Rightarrow> 'v world \<Rightarrow> CudaGlobalPtr \<Rightarrow> nat \<Rightarrow> error + ('v world \<times> CudaGlobalPtr)" where
  "cp_to_device_ptr debug w b hostPtr = cp_to_device debug w (b\<lparr>h_ptr := hostPtr\<rparr>)"

definition put_on_device ::
  "bool \<Rightarrow> 'v world \<Rightarrow> CudaGlobalPtr \<Rightarrow> error + ('v world \<times> CudaGlobalPtr)" where
  "put_on_device debug w b =
     and_then (device_alloc debug w b) (\<lambda>(w1, b1). cp_to_device debug w1 b1)"

definition cp_to_host ::
  "bool \<Rightarrow> 'v world \<Rightarrow> CudaGlobalPtr \<Rightarrow> error + ('v world \<times> CudaGlobalPtr)" where
  "cp_to_host debug w b =
     and_then (cudaCpyDeviceToHost debug w (d_ptr b) (h_ptr b) (size_f b)) (\<lambda>w'. Inr (w', b))"

definition free_device ::
  "bool \<Rightarrow> 'v world \<Rightarrow> CudaGlobalPtr \<Rightarrow> error + ('v world \<times> CudaGlobalPtr)" where
  "free_device debug w b =
     (let b1 = b\<lparr>d_do_free := False\<rparr>;
          (err, w') = cudaFree w (d_ptr b1)
      in and_then (HANDLE_ERROR debug err) (\<lambda>_. Inr (w', b1\<lparr>d_ptr := 0\<rparr>)))"

definition free_host ::
  "bool \<Rightarrow> 'v world \<Rightarrow> CudaGlobalPtr \<Rightarrow> error + ('v world \<times> CudaGlobalPtr)" where
  "free_host debug w b =
     (if debug \<and> h_ptr b = 0 then Inl ExitFailure
      else let b1 = b\<lparr>h_do_free := False\<rparr>
           in and_then (delete_array w (h_ptr b1)) (\<lambda>w'. Inr (w', b1\<lparr>h_ptr := 0\<rparr>)))"


text \<open>
  The destructor \<^verbatim>\<open>~CudaGlobalPtr\<close>: the object is gone afterwards, so only the memory
  is returned.
\<close>

definition destroy_CudaGlobalPtr ::
  "bool \<Rightarrow> 'v world \<Rightarrow> CudaGlobalPtr \<Rightarrow> error + 'v world" where
  "destroy_CudaGlobalPtr debug w b =
     and_then (if d_do_free b then free_device debug w b else Inr (w, b))
       (\<lambda>(w1, b1). and_then (if h_do_free b1 then free_host debug w1 b1 else Inr (w1, b1))
          (\<lambda>(w2, b2). Inr w2))"

section \<open>IndexedDataArrayMask\<close>

record IndexedDataArrayMask =
  jobOrigin :: CudaGlobalPtr
  jobExtent :: CudaGlobalPtr
  firstPos :: "64 word"
  lastPos :: "64 word"
  weightNum :: "64 word"
  jobNum :: "64 word"

definition IndexedDataArrayMask_0 :: IndexedDataArrayMask where
  "IndexedDataArrayMask_0 =
     \<lparr>jobOrigin = CudaGlobalPtr_0, jobExtent = CudaGlobalPtr_0,
      firstPos = 0, lastPos = 0, weightNum = 0, jobNum = 0\<rparr>"

text \<open>
  The argument of both setters is a \<^verbatim>\<open>long int\<close>, an integer from \<open>- 2 ^ 63\<close> up to
  \<open>2 ^ 63 - 1\<close>; the assignment to an unsigned 64-bit field converts it modulo
  \<open>2 ^ 64\<close>, which is \<open>word_of_int\<close>.
\<close>

definition setNumberOfJobs :: "IndexedDataArrayMask \<Rightarrow> int \<Rightarrow> IndexedDataArrayMask" where
  "setNumberOfJobs m newSize =
     (let m1 = m\<lparr>jobNum := word_of_int newSize\<rparr>;
          m2 = m1\<lparr>jobOrigin := (jobOrigin m1)\<lparr>size_f := word_of_int newSize\<rparr>\<rparr>
      in m2\<lparr>jobExtent := (jobExtent m2)\<lparr>size_f := word_of_int newSize\<rparr>\<rparr>)"


section \<open>IndexedDataArray\<close>

record IndexedDataArray =
  weights :: CudaGlobalPtr
  rot_id :: CudaGlobalPtr
  rot_idx :: CudaGlobalPtr
  trans_idx :: CudaGlobalPtr
  ihidden_overs :: CudaGlobalPtr
  class_id :: CudaGlobalPtr

definition IndexedDataArray_0 :: IndexedDataArray where
  "IndexedDataArray_0 =
     \<lparr>weights = CudaGlobalPtr_0, rot_id = CudaGlobalPtr_0, rot_idx = CudaGlobalPtr_0,
      trans_idx = CudaGlobalPtr_0, ihidden_overs = CudaGlobalPtr_0,
      class_id = CudaGlobalPtr_0\<rparr>"

text \<open>
  \<^verbatim>\<open>&(p[k])\<close> on a pointer \<open>p\<close>: the address \<open>k\<close> elements after \<open>p\<close>; nothing is
  read.
\<close>

definition element_address :: "nat \<Rightarrow> 64 word \<Rightarrow> nat" where
  "element_address p k = p + unat k"

text \<open>
  The constructor of a child from a parent and a mask: the member initialisers, then
  the twelve assignments of its body.
\<close>

definition IndexedDataArray_child ::
  "IndexedDataArray \<Rightarrow> IndexedDataArrayMask \<Rightarrow> IndexedDataArray" where
  "IndexedDataArray_child parent msk =
     (let a0 =
        \<lparr>weights = CudaGlobalPtr_3 (element_address (h_ptr (weights parent)) (firstPos msk))
                     (element_address (d_ptr (weights parent)) (firstPos msk)) (weightNum msk),
         rot_id = CudaGlobalPtr_3 (element_address (h_ptr (rot_id parent)) (firstPos msk))
                     (element_address (d_ptr (rot_id parent)) (firstPos msk)) (weightNum msk),
         rot_idx = CudaGlobalPtr_3 (element_address (h_ptr (rot_idx parent)) (firstPos msk))
                     (element_address (d_ptr (rot_idx parent)) (firstPos msk)) (weightNum msk),
         trans_idx = CudaGlobalPtr_3 (element_address (h_ptr (trans_idx parent)) (firstPos msk))
                     (element_address (d_ptr (trans_idx parent)) (firstPos msk)) (weightNum msk),
         ihidden_overs =
           CudaGlobalPtr_3 (element_address (h_ptr (ihidden_overs parent)) (firstPos msk))
                     (element_address (d_ptr (ihidden_overs parent)) (firstPos msk))
                     (weightNum msk),
         class_id = CudaGlobalPtr_3 (element_address (h_ptr (class_id parent)) (firstPos msk))
                     (element_address (d_ptr (class_id parent)) (firstPos msk)) (weightNum msk)\<rparr>;
        a1 = a0\<lparr>weights := (weights a0)\<lparr>d_do_free := False\<rparr>\<rparr>;
        a2 = a1\<lparr>rot_id := (rot_id a1)\<lparr>d_do_free := False\<rparr>\<rparr>;
        a3 = a2\<lparr>rot_idx := (rot_idx a2)\<lparr>d_do_free := False\<rparr>\<rparr>;
        a4 = a3\<lparr>trans_idx := (trans_idx a3)\<lparr>d_do_free := False\<rparr>\<rparr>;
        a5 = a4\<lparr>ihidden_overs := (ihidden_overs a4)\<lparr>d_do_free := False\<rparr>\<rparr>;
        a6 = a5\<lparr>class_id := (class_id a5)\<lparr>d_do_free := False\<rparr>\<rparr>;
        a7 = a6\<lparr>weights := (weights a6)\<lparr>h_do_free := False\<rparr>\<rparr>;
        a8 = a7\<lparr>rot_id := (rot_id a7)\<lparr>h_do_free := False\<rparr>\<rparr>;
        a9 = a8\<lparr>rot_idx := (rot_idx a8)\<lparr>h_do_free := False\<rparr>\<rparr>;
        a10 = a9\<lparr>trans_idx := (trans_idx a9)\<lparr>h_do_free := False\<rparr>\<rparr>;
        a11 = a10\<lparr>ihidden_overs := (ihidden_overs a10)\<lparr>h_do_free := False\<rparr>\<rparr>
      in a11\<lparr>class_id := (class_id a11)\<lparr>h_do_free := False\<rparr>\<rparr>)"

definition setDataSize :: "IndexedDataArray \<Rightarrow> int \<Rightarrow> IndexedDataArray" where
  "setDataSize a newSize =
     (let a1 = a\<lparr>weights := (weights a)\<lparr>size_f := word_of_int newSize\<rparr>\<rparr>;
          a2 = a1\<lparr>rot_id := (rot_id a1)\<lparr>size_f := word_of_int newSize\<rparr>\<rparr>;
          a3 = a2\<lparr>rot_idx := (rot_idx a2)\<lparr>size_f := word_of_int newSize\<rparr>\<rparr>;
          a4 = a3\<lparr>trans_idx := (trans_idx a3)\<lparr>size_f := word_of_int newSize\<rparr>\<rparr>;
          a5 = a4\<lparr>ihidden_overs := (ihidden_overs a4)\<lparr>size_f := word_of_int newSize\<rparr>\<rparr>
      in a5\<lparr>class_id := (class_id a5)\<lparr>size_f := word_of_int newSize\<rparr>\<rparr>)"

text \<open>
  A call of a \<^verbatim>\<open>CudaGlobalPtr\<close> method on one member of the array: the member is
  replaced by what the method leaves, the memory is passed on.
\<close>

type_synonym 'v member_fn = "'v world \<Rightarrow> CudaGlobalPtr \<Rightarrow> error + ('v world \<times> CudaGlobalPtr)"

definition on_member ::
  "(IndexedDataArray \<Rightarrow> CudaGlobalPtr) \<Rightarrow>
   (IndexedDataArray \<Rightarrow> CudaGlobalPtr \<Rightarrow> IndexedDataArray) \<Rightarrow> 'v member_fn \<Rightarrow>
   'v world \<times> IndexedDataArray \<Rightarrow> error + ('v world \<times> IndexedDataArray)" where
  "on_member get put m s =
     and_then (m (fst s) (get (snd s))) (\<lambda>(w', b'). Inr (w', put (snd s) b'))"

definition on_weights :: "'v member_fn \<Rightarrow> 'v world \<times> IndexedDataArray \<Rightarrow> error + ('v world \<times> IndexedDataArray)" where
  "on_weights = on_member weights (\<lambda>a b. a\<lparr>weights := b\<rparr>)"

definition on_rot_id :: "'v member_fn \<Rightarrow> 'v world \<times> IndexedDataArray \<Rightarrow> error + ('v world \<times> IndexedDataArray)" where
  "on_rot_id = on_member rot_id (\<lambda>a b. a\<lparr>rot_id := b\<rparr>)"

definition on_rot_idx :: "'v member_fn \<Rightarrow> 'v world \<times> IndexedDataArray \<Rightarrow> error + ('v world \<times> IndexedDataArray)" where
  "on_rot_idx = on_member rot_idx (\<lambda>a b. a\<lparr>rot_idx := b\<rparr>)"

definition on_trans_idx :: "'v member_fn \<Rightarrow> 'v world \<times> IndexedDataArray \<Rightarrow> error + ('v world \<times> IndexedDataArray)" where
  "on_trans_idx = on_member trans_idx (\<lambda>a b. a\<lparr>trans_idx := b\<rparr>)"

definition on_ihidden_overs :: "'v member_fn \<Rightarrow> 'v world \<times> IndexedDataArray \<Rightarrow> error + ('v world \<times> IndexedDataArray)" where
  "on_ihidden_overs = on_member ihidden_overs (\<lambda>a b. a\<lparr>ihidden_overs := b\<rparr>)"

definition on_class_id :: "'v member_fn \<Rightarrow> 'v world \<times> IndexedDataArray \<Rightarrow> error + ('v world \<times> IndexedDataArray)" where
  "on_class_id = on_member class_id (\<lambda>a b. a\<lparr>class_id := b\<rparr>)"

definition dual_alloc_all ::
  "bool \<Rightarrow> 'v world \<Rightarrow> IndexedDataArray \<Rightarrow> error + ('v world \<times> IndexedDataArray)" where
  "dual_alloc_all debug w a =
     and_then (on_weights host_alloc (w, a)) (\<lambda>s1.
     and_then (on_rot_id host_alloc s1) (\<lambda>s2.
     and_then (on_rot_idx host_alloc s2) (\<lambda>s3.
     and_then (on_trans_idx host_alloc s3) (\<lambda>s4.
     and_then (on_ihidden_overs host_alloc s4) (\<lambda>s5.
     and_then (on_class_id host_alloc s5) (\<lambda>s6.
     and_then (on_weights (device_alloc debug) s6) (\<lambda>s7.
     and_then (on_rot_id (device_alloc debug) s7) (\<lambda>s8.
     and_then (on_rot_idx (device_alloc debug) s8) (\<lambda>s9.
     and_then (on_trans_idx (device_alloc debug) s9) (\<lambda>s10.
     and_then (on_ihidden_overs (device_alloc debug) s10) (\<lambda>s11.
     on_class_id (device_alloc debug) s11)))))))))))"


section \<open>ProjectionParams\<close>

text \<open>
  The vectors are lists; the angles are of an arbitrary type \<open>'d\<close>, since the class
  only stores them. The fields are in the order of their declaration, which is the
  order in which a constructor initialises them.
\<close>

record 'd ProjectionParams =
  orientation_num :: "64 word list"
  orientationNumAllClasses :: "64 word"
  rots :: "'d list"
  tilts :: "'d list"
  psis :: "'d list"
  iorientclasses :: "64 word list"
  iover_rots :: "64 word list"
  class_entries :: "64 word list"
  class_idx :: "64 word list"

definition ProjectionParams_0 :: "'d ProjectionParams" where
  "ProjectionParams_0 =
     \<lparr>orientation_num = [], orientationNumAllClasses = 0,
      rots = [], tilts = [], psis = [], iorientclasses = [], iover_rots = [],
      class_entries = [], class_idx = []\<rparr>"

text \<open>\<^verbatim>\<open>v[i] = x\<close> on a vector: no defined result unless \<open>i\<close> is below its length.\<close>

definition vector_set :: "'a list \<Rightarrow> nat \<Rightarrow> 'a \<Rightarrow> error + 'a list" where
  "vector_set v i x = (if i < length v then Inr (v[i := x]) else Inl UndefinedBehaviour)"

definition ProjectionParams_1 :: "64 word \<Rightarrow> error + 'd ProjectionParams" where
  "ProjectionParams_1 classes =
     (let t = \<lparr>orientation_num = replicate (unat classes) 0, orientationNumAllClasses = 0,
               rots = [], tilts = [], psis = [], iorientclasses = [], iover_rots = [],
               class_entries = replicate (unat classes) 0,
               class_idx = replicate (unat classes) 0\<rparr>
      in and_then (vector_set (class_idx t) 0 0) (\<lambda>ci.
         and_then (vector_set (class_entries t) 0 0) (\<lambda>ce.
         Inr (t\<lparr>class_idx := ci, class_entries := ce\<rparr>))))"

text \<open>
  \<^verbatim>\<open>std::vector(&v[start], &v[end])\<close>: a new vector holding copies of the elements
  from position \<open>start\<close> up to, not including, position \<open>end\<close>; no defined result
  unless \<open>start \<le> end \<le> v.size()\<close>.
\<close>

definition vector_range :: "'a list \<Rightarrow> 64 word \<Rightarrow> 64 word \<Rightarrow> error + 'a list" where
  "vector_range v start end_i =
     (if unat start \<le> unat end_i \<and> unat end_i \<le> length v
      then Inr (take (unat end_i - unat start) (drop (unat start) v))
      else Inl UndefinedBehaviour)"

text \<open>
  The slicing constructor. It has no initialiser for \<^verbatim>\<open>orientationNumAllClasses\<close>,
  which keeps whatever its storage held: the parameter \<open>uninit\<close>. \<^verbatim>\<open>orientation_num(1)\<close>
  is a vector of one value-initialised element, \<^verbatim>\<open>class_entries(1, end - start)\<close> and
  \<^verbatim>\<open>class_idx(1, 0)\<close> are vectors of one element of the given value.
\<close>

definition ProjectionParams_slice ::
  "'d ProjectionParams \<Rightarrow> 64 word \<Rightarrow> 64 word \<Rightarrow> 64 word \<Rightarrow> error + 'd ProjectionParams" where
  "ProjectionParams_slice parent start end_i uninit =
     and_then (vector_range (rots parent) start end_i) (\<lambda>r.
     and_then (vector_range (tilts parent) start end_i) (\<lambda>t.
     and_then (vector_range (psis parent) start end_i) (\<lambda>p.
     and_then (vector_range (iorientclasses parent) start end_i) (\<lambda>ic.
     and_then (vector_range (iover_rots parent) start end_i) (\<lambda>io.
     Inr \<lparr>orientation_num = replicate 1 0, orientationNumAllClasses = uninit,
          rots = r, tilts = t, psis = p, iorientclasses = ic, iover_rots = io,
          class_entries = replicate 1 (end_i - start), class_idx = replicate 1 0\<rparr>)))))"

text \<open>
  \<^verbatim>\<open>class_entries[iclass]++\<close> has no defined result unless \<open>iclass\<close> is below the
  length of \<^verbatim>\<open>class_entries\<close>; the counter is an unsigned 64-bit integer, so the
  increment wraps. The vectors are not part of the memory modelled above, and a
  \<^verbatim>\<open>push_back\<close> that finds no storage is not modelled.
\<close>

definition pushBackAll ::
  "'d ProjectionParams \<Rightarrow> 64 word \<Rightarrow> 'd \<Rightarrow> 'd \<Rightarrow> 'd \<Rightarrow> 64 word \<Rightarrow> 64 word \<Rightarrow>
   error + 'd ProjectionParams" where
  "pushBackAll t iclass NEWrot NEWtilt NEWpsi NEWiorientclasses NEWiover_rots =
     (if unat iclass < length (class_entries t)
      then Inr (t\<lparr>class_entries :=
                    (class_entries t)[unat iclass := class_entries t ! unat iclass + 1],
                  rots := rots t @ [NEWrot],
                  tilts := tilts t @ [NEWtilt],
                  psis := psis t @ [NEWpsi],
                  iorientclasses := iorientclasses t @ [NEWiorientclasses],
                  iover_rots := iover_rots t @ [NEWiover_rots]\<rparr>)
      else Inl UndefinedBehaviour)"

section \<open>Runs of calls, and the notions the properties use\<close>

text \<open>
  A run of \<^verbatim>\<open>pushBackAll\<close> calls on one table, each entry the six arguments of one
  call; the run stops at the first call that has no defined result.
\<close>

type_synonym 'd entry = "64 word \<times> 'd \<times> 'd \<times> 'd \<times> 64 word \<times> 64 word"

fun pushBackAll_list :: "'d ProjectionParams \<Rightarrow> 'd entry list \<Rightarrow> error + 'd ProjectionParams" where
  "pushBackAll_list t [] = Inr t"
| "pushBackAll_list t ((iclass, r, ti, p, ic, io) # es) =
     and_then (pushBackAll t iclass r ti p ic io) (\<lambda>t'. pushBackAll_list t' es)"

definition calls_for :: "'d entry list \<Rightarrow> 64 word \<Rightarrow> nat" where
  "calls_for es c = length (filter (\<lambda>e. fst e = c) es)"

text \<open>\<open>s\<close> is, element for element, the part of \<open>v\<close> from position \<open>i\<close> up to \<open>j\<close>.\<close>

definition sub_range :: "'a list \<Rightarrow> 'a list \<Rightarrow> nat \<Rightarrow> nat \<Rightarrow> bool" where
  "sub_range s v i j = (s = map (\<lambda>k. v ! (i + k)) [0 ..< j - i])"




text \<open>The host contents of a buffer: the \<open>size\<close> elements from its host pointer on.\<close>

definition host_data :: "'v world \<Rightarrow> CudaGlobalPtr \<Rightarrow> 'v list" where
  "host_data w b = map (cells (host w)) [h_ptr b ..< h_ptr b + unat (size_f b)]"

definition copy_both_ways ::
  "bool \<Rightarrow> 'v world \<Rightarrow> CudaGlobalPtr \<Rightarrow> error + ('v world \<times> CudaGlobalPtr)" where
  "copy_both_ways debug w b =
     and_then (cp_to_device debug w b) (\<lambda>(w2, b2). cp_to_host debug w2 b2)"

definition round_trip ::
  "bool \<Rightarrow> 'v world \<Rightarrow> CudaGlobalPtr \<Rightarrow> error + ('v world \<times> CudaGlobalPtr)" where
  "round_trip debug w b =
     and_then (device_alloc debug w b) (\<lambda>(w1, b1).
     and_then (cp_to_device debug w1 b1) (\<lambda>(w2, b2).
     cp_to_host debug w2 b2))"

text \<open>The sizes of the six buffers of an array, in the order of their declaration.\<close>

definition sizes :: "IndexedDataArray \<Rightarrow> 64 word list" where
  "sizes a = [size_f (weights a), size_f (rot_id a), size_f (rot_idx a),
              size_f (trans_idx a), size_f (ihidden_overs a), size_f (class_id a)]"

definition all_sizes :: "IndexedDataArray \<Rightarrow> 64 word \<Rightarrow> bool" where
  "all_sizes a n = (sizes a = replicate 6 n)"

definition uniform_size :: "IndexedDataArray \<Rightarrow> bool" where
  "uniform_size a = all_sizes a (size_f (weights a))"

text \<open>Memories to run the operations in: nothing allocated, room for 16 elements.\<close>

definition blank_mem :: "nat mem" where
  "blank_mem = \<lparr>cells = (\<lambda>_. 0), blocks = [], brk = 0, capacity = 16\<rparr>"

definition blank_world :: "nat world" where
  "blank_world = \<lparr>host = blank_mem, dev = blank_mem\<rparr>"

text \<open>
  A memory in which one allocation of three elements lives at address 1 on each side;
  the host holds 10, 20, 30 there (each address holds ten times its number), the device
  holds zeros.
\<close>

definition counting_world :: "nat world" where
  "counting_world =
     \<lparr>host = \<lparr>cells = (\<lambda>a. 10 * a), blocks = [(1, 3)], brk = 3, capacity = 16\<rparr>,
      dev = \<lparr>cells = (\<lambda>_. 0), blocks = [(1, 3)], brk = 3, capacity = 16\<rparr>\<rparr>"

text \<open>
  The table of the specification's scenario: two classes, entries appended for the
  classes 0, 1, 0, 0, 1.
\<close>

definition example_table :: "nat ProjectionParams" where
  "example_table =
     \<lparr>orientation_num = [0, 0], orientationNumAllClasses = 0,
      rots = [10, 11, 12, 13, 14], tilts = [20, 21, 22, 23, 24],
      psis = [30, 31, 32, 33, 34], iorientclasses = [1, 1, 2, 2, 3],
      iover_rots = [0, 0, 0, 1, 0], class_entries = [3, 2], class_idx = [0, 0]\<rparr>"

section \<open>Properties\<close>

lemma and_then_simps:
  "and_then (Inl e) f = Inl e"
  "and_then (Inr x) f = f x"
  by (simp_all add: and_then_def)

subsection \<open>The indexed array and its mask\<close>

text \<open>
  C2. Each of the six buffers of a child built from a parent and a mask has the
  parent buffer's host pointer moved on by \<^verbatim>\<open>mask.firstPos\<close> elements, the parent buffer's
  device pointer moved on by \<^verbatim>\<open>mask.firstPos\<close> elements, the size \<^verbatim>\<open>mask.weightNum\<close>,
  and both ownership flags false.
\<close>

theorem child_view_buffers:
  "weights (IndexedDataArray_child parent msk) =
     \<lparr>size_f = weightNum msk,
      h_ptr = h_ptr (weights parent) + unat (firstPos msk),
      d_ptr = d_ptr (weights parent) + unat (firstPos msk),
      h_do_free = False, d_do_free = False\<rparr>
   \<and> rot_id (IndexedDataArray_child parent msk) =
     \<lparr>size_f = weightNum msk,
      h_ptr = h_ptr (rot_id parent) + unat (firstPos msk),
      d_ptr = d_ptr (rot_id parent) + unat (firstPos msk),
      h_do_free = False, d_do_free = False\<rparr>
   \<and> rot_idx (IndexedDataArray_child parent msk) =
     \<lparr>size_f = weightNum msk,
      h_ptr = h_ptr (rot_idx parent) + unat (firstPos msk),
      d_ptr = d_ptr (rot_idx parent) + unat (firstPos msk),
      h_do_free = False, d_do_free = False\<rparr>
   \<and> trans_idx (IndexedDataArray_child parent msk) =
     \<lparr>size_f = weightNum msk,
      h_ptr = h_ptr (trans_idx parent) + unat (firstPos msk),
      d_ptr = d_ptr (trans_idx parent) + unat (firstPos msk),
      h_do_free = False, d_do_free = False\<rparr>
   \<and> ihidden_overs (IndexedDataArray_child parent msk) =
     \<lparr>size_f = weightNum msk,
      h_ptr = h_ptr (ihidden_overs parent) + unat (firstPos msk),
      d_ptr = d_ptr (ihidden_overs parent) + unat (firstPos msk),
      h_do_free = False, d_do_free = False\<rparr>
   \<and> class_id (IndexedDataArray_child parent msk) =
     \<lparr>size_f = weightNum msk,
      h_ptr = h_ptr (class_id parent) + unat (firstPos msk),
      d_ptr = d_ptr (class_id parent) + unat (firstPos msk),
      h_do_free = False, d_do_free = False\<rparr>"
  by (simp add: IndexedDataArray_child_def Let_def CudaGlobalPtr_3_def element_address_def)

text \<open>
  C4, as amended. \<^verbatim>\<open>setNumberOfJobs(n)\<close> stores \<open>n\<close>, converted to an unsigned 64-bit
  integer (\<open>n mod 2 ^ 64\<close>), in \<^verbatim>\<open>jobNum\<close> and in the \<^verbatim>\<open>size\<close> of \<^verbatim>\<open>jobOrigin\<close> and of
  \<^verbatim>\<open>jobExtent\<close>. It allocates nothing: the host and device pointers and the ownership
  flags of both buffers, and the other fields of the mask, are as before.
\<close>

theorem setNumberOfJobs_sets_sizes_only:
  "jobNum (setNumberOfJobs m n) = word_of_int n
   \<and> uint (jobNum (setNumberOfJobs m n)) = n mod 2 ^ 64
   \<and> jobOrigin (setNumberOfJobs m n) = (jobOrigin m)\<lparr>size_f := word_of_int n\<rparr>
   \<and> jobExtent (setNumberOfJobs m n) = (jobExtent m)\<lparr>size_f := word_of_int n\<rparr>
   \<and> h_ptr (jobOrigin (setNumberOfJobs m n)) = h_ptr (jobOrigin m)
   \<and> d_ptr (jobOrigin (setNumberOfJobs m n)) = d_ptr (jobOrigin m)
   \<and> h_do_free (jobOrigin (setNumberOfJobs m n)) = h_do_free (jobOrigin m)
   \<and> d_do_free (jobOrigin (setNumberOfJobs m n)) = d_do_free (jobOrigin m)
   \<and> h_ptr (jobExtent (setNumberOfJobs m n)) = h_ptr (jobExtent m)
   \<and> d_ptr (jobExtent (setNumberOfJobs m n)) = d_ptr (jobExtent m)
   \<and> h_do_free (jobExtent (setNumberOfJobs m n)) = h_do_free (jobExtent m)
   \<and> d_do_free (jobExtent (setNumberOfJobs m n)) = d_do_free (jobExtent m)
   \<and> firstPos (setNumberOfJobs m n) = firstPos m
   \<and> lastPos (setNumberOfJobs m n) = lastPos m
   \<and> weightNum (setNumberOfJobs m n) = weightNum m"
  by (simp add: setNumberOfJobs_def Let_def uint_word_of_int)

text \<open>
  C4 as the specification states it fails on a mask as its constructor leaves it:
  after \<^verbatim>\<open>setNumberOfJobs(3)\<close> both buffers have size 3 and null host and device
  pointers, and no host or device storage of three elements exists at them.
\<close>

theorem setNumberOfJobs_allocates_counterexample:
  "size_f (jobOrigin (setNumberOfJobs IndexedDataArrayMask_0 3)) = 3
   \<and> size_f (jobExtent (setNumberOfJobs IndexedDataArrayMask_0 3)) = 3
   \<and> h_ptr (jobOrigin (setNumberOfJobs IndexedDataArrayMask_0 3)) = 0
   \<and> d_ptr (jobOrigin (setNumberOfJobs IndexedDataArrayMask_0 3)) = 0
   \<and> h_ptr (jobExtent (setNumberOfJobs IndexedDataArrayMask_0 3)) = 0
   \<and> d_ptr (jobExtent (setNumberOfJobs IndexedDataArrayMask_0 3)) = 0
   \<and> \<not> valid_range (host blank_world)
          (h_ptr (jobOrigin (setNumberOfJobs IndexedDataArrayMask_0 3))) 3
   \<and> \<not> valid_range (host blank_world)
          (h_ptr (jobExtent (setNumberOfJobs IndexedDataArrayMask_0 3))) 3
   \<and> \<not> valid_range (dev blank_world)
          (d_ptr (jobOrigin (setNumberOfJobs IndexedDataArrayMask_0 3))) 3
   \<and> \<not> valid_range (dev blank_world)
          (d_ptr (jobExtent (setNumberOfJobs IndexedDataArrayMask_0 3))) 3"
  by (simp add: setNumberOfJobs_def Let_def IndexedDataArrayMask_0_def CudaGlobalPtr_0_def
      valid_range_def blank_world_def blank_mem_def)

lemma HANDLE_ERROR_cases:
  "HANDLE_ERROR debug err = (if debug \<and> err \<noteq> cudaSuccess then Inl (Signal err) else Inr ())"
  by (simp add: HANDLE_ERROR_def HandleError_def)

lemma host_alloc_size:
  "host_alloc w b = Inr (w', b') \<Longrightarrow> size_f b' = size_f b"
  by (auto simp: host_alloc_def new_array_def and_then_def Let_def
      split: option.splits sum.splits)

lemma device_alloc_size:
  "device_alloc debug w b = Inr (w', b') \<Longrightarrow> size_f b' = size_f b"
  by (auto simp: device_alloc_def cudaMalloc_def HANDLE_ERROR_cases and_then_def Let_def
      split: option.splits sum.splits if_splits)

lemma allocs_keep_size:
  "\<forall>w b w' b'. host_alloc w b = Inr (w', b') \<longrightarrow> size_f b' = size_f b"
  "\<forall>w b w' b'. device_alloc debug w b = Inr (w', b') \<longrightarrow> size_f b' = size_f b"
  using host_alloc_size device_alloc_size by blast+

lemma on_member_sizes:
  assumes keeps: "\<forall>w b w' b'. f w b = Inr (w', b') \<longrightarrow> size_f b' = size_f b"
    and run: "on_member get put f s = Inr s'"
    and put: "\<And>a b. size_f b = size_f (get a) \<Longrightarrow> sizes (put a b) = sizes a"
  shows "sizes (snd s') = sizes (snd s)"
proof -
  from run obtain w' b' where call: "f (fst s) (get (snd s)) = Inr (w', b')"
    and s': "s' = (w', put (snd s) b')"
    by (auto simp: on_member_def and_then_def split: sum.splits)
  from keeps call have "size_f b' = size_f (get (snd s))"
    by blast
  then show ?thesis
    by (simp add: s' put)
qed

lemma on_weights_sizes:
  assumes "\<forall>w b w' b'. f w b = Inr (w', b') \<longrightarrow> size_f b' = size_f b"
    and "on_weights f s = Inr s'"
  shows "sizes (snd s') = sizes (snd s)"
proof -
  have put: "size_f b = size_f (weights a) \<Longrightarrow> sizes (a\<lparr>weights := b\<rparr>) = sizes a" for a b
    by (simp add: sizes_def)
  from assms(2) have "on_member weights (\<lambda>a b. a\<lparr>weights := b\<rparr>) f s = Inr s'"
    by (simp add: on_weights_def)
  from on_member_sizes [OF assms(1) this put] show ?thesis .
qed

lemma on_rot_id_sizes:
  assumes "\<forall>w b w' b'. f w b = Inr (w', b') \<longrightarrow> size_f b' = size_f b"
    and "on_rot_id f s = Inr s'"
  shows "sizes (snd s') = sizes (snd s)"
proof -
  have put: "size_f b = size_f (rot_id a) \<Longrightarrow> sizes (a\<lparr>rot_id := b\<rparr>) = sizes a" for a b
    by (simp add: sizes_def)
  from assms(2) have "on_member rot_id (\<lambda>a b. a\<lparr>rot_id := b\<rparr>) f s = Inr s'"
    by (simp add: on_rot_id_def)
  from on_member_sizes [OF assms(1) this put] show ?thesis .
qed

lemma on_rot_idx_sizes:
  assumes "\<forall>w b w' b'. f w b = Inr (w', b') \<longrightarrow> size_f b' = size_f b"
    and "on_rot_idx f s = Inr s'"
  shows "sizes (snd s') = sizes (snd s)"
proof -
  have put: "size_f b = size_f (rot_idx a) \<Longrightarrow> sizes (a\<lparr>rot_idx := b\<rparr>) = sizes a" for a b
    by (simp add: sizes_def)
  from assms(2) have "on_member rot_idx (\<lambda>a b. a\<lparr>rot_idx := b\<rparr>) f s = Inr s'"
    by (simp add: on_rot_idx_def)
  from on_member_sizes [OF assms(1) this put] show ?thesis .
qed

lemma on_trans_idx_sizes:
  assumes "\<forall>w b w' b'. f w b = Inr (w', b') \<longrightarrow> size_f b' = size_f b"
    and "on_trans_idx f s = Inr s'"
  shows "sizes (snd s') = sizes (snd s)"
proof -
  have put: "size_f b = size_f (trans_idx a) \<Longrightarrow> sizes (a\<lparr>trans_idx := b\<rparr>) = sizes a" for a b
    by (simp add: sizes_def)
  from assms(2) have "on_member trans_idx (\<lambda>a b. a\<lparr>trans_idx := b\<rparr>) f s = Inr s'"
    by (simp add: on_trans_idx_def)
  from on_member_sizes [OF assms(1) this put] show ?thesis .
qed

lemma on_ihidden_overs_sizes:
  assumes "\<forall>w b w' b'. f w b = Inr (w', b') \<longrightarrow> size_f b' = size_f b"
    and "on_ihidden_overs f s = Inr s'"
  shows "sizes (snd s') = sizes (snd s)"
proof -
  have put: "size_f b = size_f (ihidden_overs a) \<Longrightarrow> sizes (a\<lparr>ihidden_overs := b\<rparr>) = sizes a" for a b
    by (simp add: sizes_def)
  from assms(2) have "on_member ihidden_overs (\<lambda>a b. a\<lparr>ihidden_overs := b\<rparr>) f s = Inr s'"
    by (simp add: on_ihidden_overs_def)
  from on_member_sizes [OF assms(1) this put] show ?thesis .
qed

lemma on_class_id_sizes:
  assumes "\<forall>w b w' b'. f w b = Inr (w', b') \<longrightarrow> size_f b' = size_f b"
    and "on_class_id f s = Inr s'"
  shows "sizes (snd s') = sizes (snd s)"
proof -
  have put: "size_f b = size_f (class_id a) \<Longrightarrow> sizes (a\<lparr>class_id := b\<rparr>) = sizes a" for a b
    by (simp add: sizes_def)
  from assms(2) have "on_member class_id (\<lambda>a b. a\<lparr>class_id := b\<rparr>) f s = Inr s'"
    by (simp add: on_class_id_def)
  from on_member_sizes [OF assms(1) this put] show ?thesis .
qed

lemma seq_sizes:
  assumes "and_then r h = Inr s'"
    and "\<And>s1. r = Inr s1 \<Longrightarrow> sizes (snd s1) = n"
    and "\<And>s1. sizes (snd s1) = n \<Longrightarrow> h s1 = Inr s' \<Longrightarrow> sizes (snd s') = n"
  shows "sizes (snd s') = n"
  using assms by (cases r) (simp_all add: and_then_simps)

lemma dual_alloc_all_sizes_snd:
  "dual_alloc_all debug w a = Inr s' \<Longrightarrow> sizes (snd s') = sizes a"
  unfolding dual_alloc_all_def
  apply (erule seq_sizes)
   apply (drule on_weights_sizes [OF allocs_keep_size(1)], simp)
  apply (erule seq_sizes)
   apply (drule on_rot_id_sizes [OF allocs_keep_size(1)], simp)
  apply (erule seq_sizes)
   apply (drule on_rot_idx_sizes [OF allocs_keep_size(1)], simp)
  apply (erule seq_sizes)
   apply (drule on_trans_idx_sizes [OF allocs_keep_size(1)], simp)
  apply (erule seq_sizes)
   apply (drule on_ihidden_overs_sizes [OF allocs_keep_size(1)], simp)
  apply (erule seq_sizes)
   apply (drule on_class_id_sizes [OF allocs_keep_size(1)], simp)
  apply (erule seq_sizes)
   apply (drule on_weights_sizes [OF allocs_keep_size(2)], simp)
  apply (erule seq_sizes)
   apply (drule on_rot_id_sizes [OF allocs_keep_size(2)], simp)
  apply (erule seq_sizes)
   apply (drule on_rot_idx_sizes [OF allocs_keep_size(2)], simp)
  apply (erule seq_sizes)
   apply (drule on_trans_idx_sizes [OF allocs_keep_size(2)], simp)
  apply (erule seq_sizes)
   apply (drule on_ihidden_overs_sizes [OF allocs_keep_size(2)], simp)
  apply (drule on_class_id_sizes [OF allocs_keep_size(2)], simp)
  done

lemma dual_alloc_all_sizes:
  "dual_alloc_all debug w a = Inr (w', a') \<Longrightarrow> sizes a' = sizes a"
  by (drule dual_alloc_all_sizes_snd) simp

text \<open>
  C9. The six buffers of an array have one size: \<^verbatim>\<open>setDataSize(n)\<close> gives all six
  the size \<open>n\<close> (converted to an unsigned 64-bit integer), the constructor of a child
  gives all six the size \<^verbatim>\<open>mask.weightNum\<close>, the default constructor the size 0, and
  \<^verbatim>\<open>dual_alloc_all\<close>, when it returns, has changed no size, so that an array of one
  size is still of that size.
\<close>

theorem uniform_size_preserved:
  "all_sizes (setDataSize a n) (word_of_int n) \<and> uniform_size (setDataSize a n)
   \<and> all_sizes (IndexedDataArray_child parent msk) (weightNum msk)
   \<and> uniform_size (IndexedDataArray_child parent msk)
   \<and> all_sizes IndexedDataArray_0 0 \<and> uniform_size IndexedDataArray_0
   \<and> (\<forall>w' b'. dual_alloc_all debug w b = Inr (w', b') \<longrightarrow>
          sizes b' = sizes b \<and> (uniform_size b \<longrightarrow> uniform_size b')
          \<and> (\<forall>k. all_sizes b k \<longrightarrow> all_sizes b' k))"
proof -
  have set: "all_sizes (setDataSize a n) (word_of_int n)"
    by (simp add: all_sizes_def sizes_def setDataSize_def Let_def eval_nat_numeral)
  have child: "all_sizes (IndexedDataArray_child parent msk) (weightNum msk)"
    by (simp add: all_sizes_def sizes_def IndexedDataArray_child_def CudaGlobalPtr_3_def
        Let_def eval_nat_numeral)
  have new: "all_sizes IndexedDataArray_0 0"
    by (simp add: all_sizes_def sizes_def IndexedDataArray_0_def CudaGlobalPtr_0_def
        eval_nat_numeral)
  have uni: "uniform_size x" if "all_sizes x k" for x k
    using that by (simp add: uniform_size_def all_sizes_def sizes_def eval_nat_numeral)
  have alloc: "sizes b' = sizes b \<and> (uniform_size b \<longrightarrow> uniform_size b')
          \<and> (\<forall>k. all_sizes b k \<longrightarrow> all_sizes b' k)"
    if "dual_alloc_all debug w b = Inr (w', b')" for w' b'
  proof -
    have same: "sizes b' = sizes b"
      using that by (rule dual_alloc_all_sizes)
    then have "size_f (weights b') = size_f (weights b)"
      by (simp add: sizes_def)
    with same show ?thesis
      by (simp add: uniform_size_def all_sizes_def)
  qed
  show ?thesis
    using set child new uni [OF set] uni [OF child] uni [OF new] alloc by blast
qed

text \<open>
  An array as its constructor leaves it, set to size 2 and allocated on both sides in
  memories with room for it: every buffer still has size 2.
\<close>

theorem uniform_size_preserved_witness:
  "\<exists>w' b'. dual_alloc_all False blank_world (setDataSize IndexedDataArray_0 2) = Inr (w', b')
     \<and> uniform_size (setDataSize IndexedDataArray_0 2)
     \<and> uniform_size b' \<and> sizes b' = [2, 2, 2, 2, 2, 2]"
proof -
  let ?a = "setDataSize IndexedDataArray_0 2"
  obtain w' b' where run: "dual_alloc_all False blank_world ?a = Inr (w', b')"
    by (simp add: dual_alloc_all_def on_weights_def on_rot_id_def on_rot_idx_def
        on_trans_idx_def on_ihidden_overs_def on_class_id_def on_member_def
        host_alloc_def device_alloc_def new_array_def cudaMalloc_def mem_alloc_def used_def
        HANDLE_ERROR_def and_then_simps Let_def setDataSize_def IndexedDataArray_0_def
        CudaGlobalPtr_0_def blank_world_def blank_mem_def)
  have before: "sizes ?a = [2, 2, 2, 2, 2, 2]"
    by (simp add: sizes_def setDataSize_def Let_def)
  from uniform_size_preserved [of IndexedDataArray_0 2 _ _ False blank_world ?a] run
  have "uniform_size ?a" and "sizes b' = sizes ?a" and "uniform_size b'"
    by blast+
  then show ?thesis
    using run before by auto
qed

subsection \<open>The buffer: copies\<close>

lemma copy_cells_back:
  "copy_cells (copy_cells hc h dc d n) d hc h n = hc"
  by (rule ext) (auto simp: copy_cells_def)

lemma copy_cells_read:
  "i < n \<Longrightarrow> copy_cells src s dst d n (d + i) = src (s + i)"
  by (simp add: copy_cells_def)

lemma valid_range_cells:
  "valid_range (m\<lparr>cells := c\<rparr>) p n = valid_range m p n"
  by (simp add: valid_range_def)

lemma copy_both_ways_host:
  assumes hv: "valid_range (host w) (h_ptr b) (unat (size_f b))"
    and run: "copy_both_ways debug w b = Inr (w', b')"
  shows "host w' = host w \<and> b' = b"
  using hv run
  by (auto simp: copy_both_ways_def cp_to_device_def cp_to_host_def cudaCpyHostToDevice_def
      cudaCpyDeviceToHost_def cudaMemcpy_def and_then_def HANDLE_ERROR_cases copy_cells_back
      valid_range_cells split: if_splits sum.splits)

lemma copy_both_ways_total:
  assumes hv: "valid_range (host w) (h_ptr b) (unat (size_f b))"
    and ok: "\<not> debug \<or> valid_range (dev w) (d_ptr b) (unat (size_f b))"
  shows "\<exists>w'. copy_both_ways debug w b = Inr (w', b)"
  using hv ok
  by (auto simp: copy_both_ways_def cp_to_device_def cp_to_host_def cudaCpyHostToDevice_def
      cudaCpyDeviceToHost_def cudaMemcpy_def and_then_def HANDLE_ERROR_cases
      valid_range_cells split: if_splits sum.splits)

lemma valid_range_fresh:
  "mem_alloc m n = Some (p, m') \<Longrightarrow> valid_range m' p n"
  by (auto simp: mem_alloc_def valid_range_def in_block_def split: if_splits)

lemma device_alloc_cases:
  "device_alloc debug w b =
     (case mem_alloc (dev w) (unat (size_f b)) of
        None \<Rightarrow> if debug then Inl (Signal cudaErrorMemoryAllocation)
                else Inr (w, b\<lparr>d_do_free := True\<rparr>)
      | Some (p, m) \<Rightarrow> Inr (w\<lparr>dev := m\<rparr>, b\<lparr>d_do_free := True, d_ptr := p\<rparr>))"
  by (simp add: device_alloc_def cudaMalloc_def HANDLE_ERROR_cases and_then_simps Let_def
      split: option.splits)

lemma round_trip_unfold:
  "round_trip debug w b =
     and_then (device_alloc debug w b) (\<lambda>(w1, b1). copy_both_ways debug w1 b1)"
  by (simp add: round_trip_def copy_both_ways_def)

text \<open>
  C3. A buffer whose host pointer has \<^verbatim>\<open>size\<close> elements of live host memory behind
  it goes through \<^verbatim>\<open>device_alloc()\<close>, \<^verbatim>\<open>cp_to_device()\<close>, \<^verbatim>\<open>cp_to_host()\<close>. The three
  calls return whenever the device allocation succeeds, and always in a build without
  \<^verbatim>\<open>DEBUG_CUDA\<close>; and whenever they return, the host data is what it was, the host
  memory as a whole is unchanged, and the buffer has the host pointer and size it had.
\<close>

theorem round_trip_host_data:
  assumes hv: "valid_range (host w) (h_ptr b) (unat (size_f b))"
  shows "((debug \<longrightarrow> used (dev w) + unat (size_f b) \<le> capacity (dev w)) \<longrightarrow>
            (\<exists>w' b'. round_trip debug w b = Inr (w', b')))
       \<and> (\<forall>w' b'. round_trip debug w b = Inr (w', b') \<longrightarrow>
            host_data w' b' = host_data w b \<and> host w' = host w
            \<and> h_ptr b' = h_ptr b \<and> size_f b' = size_f b)"
proof (cases "mem_alloc (dev w) (unat (size_f b))")
  case None
  then have full: "\<not> used (dev w) + unat (size_f b) \<le> capacity (dev w)"
    by (simp add: mem_alloc_def split: if_splits)
  show ?thesis
  proof (cases debug)
    case True
    then show ?thesis
      using None full by (simp add: round_trip_unfold device_alloc_cases and_then_simps)
  next
    case False
    let ?b1 = "b\<lparr>d_do_free := True\<rparr>"
    have rt: "round_trip debug w b = copy_both_ways debug w ?b1"
      using None False by (simp add: round_trip_unfold device_alloc_cases and_then_simps)
    have hv1: "valid_range (host w) (h_ptr ?b1) (unat (size_f ?b1))"
      using hv by simp
    from copy_both_ways_total [OF hv1, of debug] False
    obtain w' where tot: "copy_both_ways debug w ?b1 = Inr (w', ?b1)"
      by blast
    show ?thesis
      using rt tot copy_both_ways_host [OF hv1, of debug]
      by (auto simp: host_data_def)
  qed
next
  case (Some r)
  obtain p m where r: "r = (p, m)"
    by (cases r)
  let ?w1 = "w\<lparr>dev := m\<rparr>"
  let ?b1 = "b\<lparr>d_do_free := True, d_ptr := p\<rparr>"
  have rt: "round_trip debug w b = copy_both_ways debug ?w1 ?b1"
    using Some r by (simp add: round_trip_unfold device_alloc_cases and_then_simps)
  have hv1: "valid_range (host ?w1) (h_ptr ?b1) (unat (size_f ?b1))"
    using hv by simp
  have dv1: "valid_range (dev ?w1) (d_ptr ?b1) (unat (size_f ?b1))"
    using valid_range_fresh Some r by fastforce
  from copy_both_ways_total [OF hv1, of debug] dv1
  obtain w' where tot: "copy_both_ways debug ?w1 ?b1 = Inr (w', ?b1)"
    by blast
  show ?thesis
    using rt tot copy_both_ways_host [OF hv1, of debug]
    by (auto simp: host_data_def)
qed

text \<open>
  The host holds 10, 20, 30 in three elements at address 1; in a debug build the three
  calls return and the host data is 10, 20, 30.
\<close>

theorem round_trip_host_data_witness:
  "valid_range (host counting_world) (h_ptr (CudaGlobalPtr_2 1 3))
      (unat (size_f (CudaGlobalPtr_2 1 3)))
   \<and> host_data counting_world (CudaGlobalPtr_2 1 3) = [10, 20, 30]
   \<and> (\<exists>w' b'. round_trip True counting_world (CudaGlobalPtr_2 1 3) = Inr (w', b')
         \<and> host_data w' b' = [10, 20, 30])"
proof -
  let ?b = "CudaGlobalPtr_2 1 3"
  have hv: "valid_range (host counting_world) (h_ptr ?b) (unat (size_f ?b))"
    by (simp add: counting_world_def CudaGlobalPtr_2_def valid_range_def in_block_def)
  have room: "used (dev counting_world) + unat (size_f ?b) \<le> capacity (dev counting_world)"
    by (simp add: counting_world_def CudaGlobalPtr_2_def used_def)
  have data: "host_data counting_world ?b = [10, 20, 30]"
    by (simp add: host_data_def counting_world_def CudaGlobalPtr_2_def upt_rec)
  from round_trip_host_data [OF hv, of True] room
  obtain w' b' where run: "round_trip True counting_world ?b = Inr (w', b')"
    by blast
  from round_trip_host_data [OF hv, of True] run
  have "host_data w' b' = host_data counting_world ?b"
    by blast
  then show ?thesis
    using hv data run by auto
qed

subsection \<open>The buffer: release and ownership\<close>

















lemma cp_to_device_ptr_Inr:
  assumes "cp_to_device_ptr debug w b hostPtr = Inr (w', b')"
  shows "b' = b\<lparr>h_ptr := hostPtr\<rparr> \<and> host w' = host w \<and> blocks (dev w') = blocks (dev w)
     \<and> (unat (size_f b) \<noteq> 0 \<and> valid_range (dev w) (d_ptr b) (unat (size_f b)) \<longrightarrow>
          cells (dev w') =
            copy_cells (cells (host w)) hostPtr (cells (dev w)) (d_ptr b) (unat (size_f b)))"
  using assms
  by (auto simp: cp_to_device_ptr_def cp_to_device_def cudaCpyHostToDevice_def cudaMemcpy_def
      and_then_def HANDLE_ERROR_cases split: if_splits sum.splits)

lemma cp_to_device_ptr_total:
  assumes "valid_range (host w) hostPtr (unat (size_f b))"
    and "valid_range (dev w) (d_ptr b) (unat (size_f b))"
  shows "\<exists>w'. cp_to_device_ptr debug w b hostPtr = Inr (w', b\<lparr>h_ptr := hostPtr\<rparr>)"
  using assms
  by (simp add: cp_to_device_ptr_def cp_to_device_def cudaCpyHostToDevice_def cudaMemcpy_def
      and_then_simps HANDLE_ERROR_cases)

text \<open>
  C8, as amended. When \<^verbatim>\<open>cp_to_device(hostPtr)\<close> returns, the buffer's host pointer is
  \<open>hostPtr\<close> and every other field, the host ownership flag among them, is as before:
  the buffer does not own \<open>hostPtr\<close> exactly when it did not own its host side before
  the call. The host memory is unchanged, and when the device pointer has \<^verbatim>\<open>size\<close>
  elements of live device memory behind it, those elements now hold the \<^verbatim>\<open>size\<close>
  elements from \<open>hostPtr\<close> on. The call returns when both ranges are live.
\<close>

theorem cp_to_device_ptr_installs_pointer:
  "(\<forall>w' b'. cp_to_device_ptr debug w b hostPtr = Inr (w', b') \<longrightarrow>
       b' = b\<lparr>h_ptr := hostPtr\<rparr> \<and> h_ptr b' = hostPtr \<and> h_do_free b' = h_do_free b
       \<and> (\<not> h_do_free b \<longrightarrow> \<not> h_do_free b')
       \<and> host w' = host w
       \<and> (valid_range (dev w) (d_ptr b) (unat (size_f b)) \<longrightarrow>
            (\<forall>i < unat (size_f b).
                cells (dev w') (d_ptr b + i) = cells (host w) (hostPtr + i))))
   \<and> (valid_range (host w) hostPtr (unat (size_f b))
        \<and> valid_range (dev w) (d_ptr b) (unat (size_f b)) \<longrightarrow>
        (\<exists>w' b'. cp_to_device_ptr debug w b hostPtr = Inr (w', b')))"
proof -
  have after: "b' = b\<lparr>h_ptr := hostPtr\<rparr> \<and> h_ptr b' = hostPtr \<and> h_do_free b' = h_do_free b
       \<and> (\<not> h_do_free b \<longrightarrow> \<not> h_do_free b')
       \<and> host w' = host w
       \<and> (valid_range (dev w) (d_ptr b) (unat (size_f b)) \<longrightarrow>
            (\<forall>i < unat (size_f b).
                cells (dev w') (d_ptr b + i) = cells (host w) (hostPtr + i)))"
    if run: "cp_to_device_ptr debug w b hostPtr = Inr (w', b')" for w' b'
  proof -
    note r = cp_to_device_ptr_Inr [OF run]
    have "cells (dev w') (d_ptr b + i) = cells (host w) (hostPtr + i)"
      if "valid_range (dev w) (d_ptr b) (unat (size_f b))" and "i < unat (size_f b)" for i
    proof -
      from that have "unat (size_f b) \<noteq> 0"
        by simp
      with r that(1) have "cells (dev w') =
            copy_cells (cells (host w)) hostPtr (cells (dev w)) (d_ptr b) (unat (size_f b))"
        by blast
      then show ?thesis
        using that(2) by (simp add: copy_cells_read)
    qed
    then show ?thesis
      using r by simp
  qed
  show ?thesis
    using after cp_to_device_ptr_total [of w hostPtr b debug] by blast
qed

text \<open>
  In \<open>counting_world\<close> a buffer with a null host pointer, which owns its device side
  only, is given the host array at address 1: afterwards its host pointer is 1, it does
  not own the host side, and the device holds 10, 20, 30.
\<close>

theorem cp_to_device_ptr_installs_pointer_witness:
  "valid_range (host counting_world) 1 3 \<and> valid_range (dev counting_world) 1 3
   \<and> (\<exists>w' b'. cp_to_device_ptr True counting_world
                  \<lparr>size_f = 3, h_ptr = 0, d_ptr = 1, h_do_free = False, d_do_free = True\<rparr> 1
                = Inr (w', b')
         \<and> h_ptr b' = 1 \<and> \<not> h_do_free b'
         \<and> cells (dev w') 1 = 10 \<and> cells (dev w') 2 = 20 \<and> cells (dev w') 3 = 30)"
proof -
  let ?b = "\<lparr>size_f = 3, h_ptr = 0, d_ptr = 1, h_do_free = False, d_do_free = True\<rparr>"
  have hv: "valid_range (host counting_world) 1 (unat (size_f ?b))"
    and dv: "valid_range (dev counting_world) (d_ptr ?b) (unat (size_f ?b))"
    by (simp_all add: counting_world_def valid_range_def in_block_def)
  from cp_to_device_ptr_installs_pointer [of True counting_world ?b 1] hv dv
  obtain w' b' where run: "cp_to_device_ptr True counting_world ?b 1 = Inr (w', b')"
    by blast
  from cp_to_device_ptr_installs_pointer [of True counting_world ?b 1] run dv
  have ptr: "h_ptr b' = 1" and flag: "\<not> h_do_free b'"
    and copied: "\<forall>i < unat (size_f ?b).
                cells (dev w') (d_ptr ?b + i) = cells (host counting_world) (1 + i)"
    by auto
  from copied have "cells (dev w') (d_ptr ?b + 0) = cells (host counting_world) (1 + 0)"
    and "cells (dev w') (d_ptr ?b + 1) = cells (host counting_world) (1 + 1)"
    and "cells (dev w') (d_ptr ?b + 2) = cells (host counting_world) (1 + 2)"
    by simp_all
  then have "cells (dev w') 1 = 10" "cells (dev w') 2 = 20" "cells (dev w') 3 = 30"
    by (simp_all add: counting_world_def eval_nat_numeral)
  then show ?thesis
    using hv dv run ptr flag by auto
qed

text \<open>
  C8 as the specification states it fails for a buffer that owns its host side. An array
  of two elements is allocated on the host for the caller; a buffer is built with the
  host-allocating constructor and allocates its device side; \<^verbatim>\<open>cp_to_device\<close> is called
  with the caller's array. Afterwards the buffer's host pointer is the caller's array
  and its host ownership flag is still true: destroying the buffer releases the
  caller's array, and the allocation the buffer made itself stays live.
\<close>

theorem cp_to_device_ptr_ownership_counterexample:
  "(case new_array blank_world 2 of
      Inl e \<Rightarrow> False
    | Inr (hostSource, w1) \<Rightarrow>
       (case CudaGlobalPtr_1 w1 2 of
          Inl e \<Rightarrow> False
        | Inr (w2, b0) \<Rightarrow>
           (case device_alloc False w2 b0 of
              Inl e \<Rightarrow> False
            | Inr (w3, b1) \<Rightarrow>
               (case cp_to_device_ptr False w3 b1 hostSource of
                  Inl e \<Rightarrow> False
                | Inr (w4, b2) \<Rightarrow>
                    h_ptr b2 = hostSource \<and> h_do_free b2 \<and> h_ptr b0 \<noteq> hostSource
                    \<and> is_live (host w4) hostSource \<and> is_live (host w4) (h_ptr b0)
                    \<and> (case destroy_CudaGlobalPtr False w4 b2 of
                          Inl e \<Rightarrow> False
                        | Inr w5 \<Rightarrow>
                            \<not> is_live (host w5) hostSource
                            \<and> is_live (host w5) (h_ptr b0))))))"
  by (simp add: new_array_def CudaGlobalPtr_1_def device_alloc_def cudaMalloc_def
      mem_alloc_def used_def HANDLE_ERROR_def and_then_simps Let_def blank_world_def
      blank_mem_def cp_to_device_ptr_def cp_to_device_def cudaCpyHostToDevice_def
      cudaMemcpy_def valid_range_def in_block_def is_live_def destroy_CudaGlobalPtr_def
      free_device_def free_host_def cudaFree_def delete_array_def mem_free_def)

subsection \<open>The sampling table\<close>

lemma pushBackAll_list_counts:
  "\<forall>e \<in> set es. unat (fst e) < length (class_entries t) \<Longrightarrow>
   \<exists>t'. pushBackAll_list t es = Inr t'
     \<and> length (class_entries t') = length (class_entries t)
     \<and> (\<forall>c. unat c < length (class_entries t) \<longrightarrow>
            class_entries t' ! unat c = class_entries t ! unat c + of_nat (calls_for es c))
     \<and> length (rots t') = length (rots t) + length es
     \<and> length (tilts t') = length (tilts t) + length es
     \<and> length (psis t') = length (psis t) + length es
     \<and> length (iorientclasses t') = length (iorientclasses t) + length es
     \<and> length (iover_rots t') = length (iover_rots t) + length es"
proof (induction es arbitrary: t)
  case Nil
  then show ?case by (simp add: calls_for_def)
next
  case (Cons e es)
  obtain iclass r ti p ic io where e: "e = (iclass, r, ti, p, ic, io)"
    by (cases e) auto
  from Cons.prems have ok: "unat iclass < length (class_entries t)"
    by (simp add: e)
  define t1 where "t1 = t\<lparr>class_entries :=
                    (class_entries t)[unat iclass := class_entries t ! unat iclass + 1],
                  rots := rots t @ [r],
                  tilts := tilts t @ [ti],
                  psis := psis t @ [p],
                  iorientclasses := iorientclasses t @ [ic],
                  iover_rots := iover_rots t @ [io]\<rparr>"
  have step: "pushBackAll t iclass r ti p ic io = Inr t1"
    using ok by (simp add: pushBackAll_def t1_def)
  have len1: "length (class_entries t1) = length (class_entries t)"
    by (simp add: t1_def)
  from Cons.prems have "\<forall>e \<in> set es. unat (fst e) < length (class_entries t1)"
    by (simp add: len1)
  from Cons.IH [OF this] obtain t' where
    run: "pushBackAll_list t1 es = Inr t'"
    and len: "length (class_entries t') = length (class_entries t1)"
    and cnt: "\<forall>c. unat c < length (class_entries t1) \<longrightarrow>
            class_entries t' ! unat c = class_entries t1 ! unat c + of_nat (calls_for es c)"
    and rest: "length (rots t') = length (rots t1) + length es"
      "length (tilts t') = length (tilts t1) + length es"
      "length (psis t') = length (psis t1) + length es"
      "length (iorientclasses t') = length (iorientclasses t1) + length es"
      "length (iover_rots t') = length (iover_rots t1) + length es"
    by blast
  have whole: "pushBackAll_list t (e # es) = Inr t'"
    by (simp add: e step run and_then_simps)
  have cnt': "class_entries t' ! unat c = class_entries t ! unat c + of_nat (calls_for (e # es) c)"
    if c: "unat c < length (class_entries t)" for c
  proof (cases "c = iclass")
    case True
    then show ?thesis
      using cnt c ok by (simp add: len1 t1_def e calls_for_def)
  next
    case False
    then have "unat c \<noteq> unat iclass"
      by (simp add: word_unat_eq_iff)
    then show ?thesis
      using cnt c False by (simp add: len1 t1_def e calls_for_def)
  qed
  show ?case
    using whole len rest cnt' by (simp add: t1_def)
qed

lemma ProjectionParams_1_Inr:
  "ProjectionParams_1 classes = Inr t0 \<Longrightarrow>
   classes \<noteq> 0 \<and> class_entries t0 = replicate (unat classes) 0
   \<and> class_idx t0 = replicate (unat classes) 0
   \<and> orientation_num t0 = replicate (unat classes) 0
   \<and> orientationNumAllClasses t0 = 0
   \<and> rots t0 = [] \<and> tilts t0 = [] \<and> psis t0 = []
   \<and> iorientclasses t0 = [] \<and> iover_rots t0 = []"
  by (cases "unat classes")
     (auto simp: ProjectionParams_1_def vector_set_def and_then_simps Let_def unat_eq_0
           split: if_splits)

lemma calls_for_le: "calls_for es c \<le> length es"
  by (simp add: calls_for_def)

text \<open>
  C5. A table is built for \<open>classes\<close> classes and \<^verbatim>\<open>pushBackAll\<close> is called once for
  every entry of \<open>es\<close>, in that order, each with a class below \<open>classes\<close>. Then every call
  returns, the counter \<^verbatim>\<open>class_entries[c]\<close> of every class \<open>c\<close> is the number of calls
  whose class argument was \<open>c\<close> (as the unsigned 64-bit counter it is, and as a number
  as long as there were fewer than \<open>2 ^ 64\<close> calls), and each of \<^verbatim>\<open>rots\<close>, \<^verbatim>\<open>tilts\<close>,
  \<^verbatim>\<open>psis\<close>, \<^verbatim>\<open>iorientclasses\<close> and \<^verbatim>\<open>iover_rots\<close> has as many elements as there were
  calls.
\<close>

theorem pushBackAll_counts_per_class:
  assumes built: "ProjectionParams_1 classes = Inr t0"
    and valid: "\<forall>e \<in> set es. fst e < classes"
  shows "\<exists>t. pushBackAll_list t0 es = Inr t
     \<and> length (class_entries t) = unat classes
     \<and> (\<forall>c. c < classes \<longrightarrow> class_entries t ! unat c = of_nat (calls_for es c))
     \<and> (length es < 2 ^ 64 \<longrightarrow>
          (\<forall>c. c < classes \<longrightarrow> unat (class_entries t ! unat c) = calls_for es c))
     \<and> length (rots t) = length es
     \<and> length (tilts t) = length es
     \<and> length (psis t) = length es
     \<and> length (iorientclasses t) = length es
     \<and> length (iover_rots t) = length es"
proof -
  note t0 = ProjectionParams_1_Inr [OF built]
  have len0: "length (class_entries t0) = unat classes"
    using t0 by simp
  have "\<forall>e \<in> set es. unat (fst e) < length (class_entries t0)"
    using valid by (simp add: len0 word_less_nat_alt)
  from pushBackAll_list_counts [OF this] obtain t where
    run: "pushBackAll_list t0 es = Inr t"
    and len: "length (class_entries t) = length (class_entries t0)"
    and cnt: "\<forall>c. unat c < length (class_entries t0) \<longrightarrow>
            class_entries t ! unat c = class_entries t0 ! unat c + of_nat (calls_for es c)"
    and flat: "length (rots t) = length (rots t0) + length es"
      "length (tilts t) = length (tilts t0) + length es"
      "length (psis t) = length (psis t0) + length es"
      "length (iorientclasses t) = length (iorientclasses t0) + length es"
      "length (iover_rots t) = length (iover_rots t0) + length es"
    by blast
  have word: "class_entries t ! unat c = of_nat (calls_for es c)" if "c < classes" for c
  proof -
    from that have "unat c < unat classes"
      by (simp add: word_less_nat_alt)
    then show ?thesis
      using cnt t0 by (simp add: len0)
  qed
  have exact: "unat (class_entries t ! unat c) = calls_for es c"
    if "c < classes" and small: "length es < 2 ^ 64" for c
  proof -
    have "calls_for es c < 2 ^ 64"
      using calls_for_le [of es c] small by linarith
    then have "unat (word_of_nat (calls_for es c) :: 64 word) = calls_for es c"
      by (simp add: unat_of_nat)
    then show ?thesis
      using word [OF that(1)] by simp
  qed
  show ?thesis
    using run len len0 word exact flat t0 by auto
qed

text \<open>
  The scenario of the specification: two classes, five calls for the classes
  0, 1, 0, 0, 1; the counters end as 3 and 2 and the flat sequences have five elements.
\<close>

theorem pushBackAll_counts_per_class_witness:
  "\<exists>t0 t. ProjectionParams_1 2 = Inr t0
     \<and> pushBackAll_list t0
          [(0, 10, 20, 30, 1, 0), (1, 11, 21, 31, 1, 0), (0, 12, 22, 32, 2, 0),
           (0, 13, 23, 33, 2, 1), (1, 14, 24, 34, 3, 0 :: 64 word)] = Inr (t :: nat ProjectionParams)
     \<and> unat (class_entries t ! 0) = 3 \<and> unat (class_entries t ! 1) = 2
     \<and> length (class_entries t) = 2
     \<and> length (rots t) = 5 \<and> length (iover_rots t) = 5"
proof -
  let ?es = "[(0, 10, 20, 30, 1, 0), (1, 11, 21, 31, 1, 0), (0, 12, 22, 32, 2, 0),
           (0, 13, 23, 33, 2, 1), (1, 14, 24, 34, 3, 0 :: 64 word)] :: nat entry list"
  obtain t0 :: "nat ProjectionParams" where built: "ProjectionParams_1 2 = Inr t0"
    by (simp add: ProjectionParams_1_def vector_set_def and_then_simps Let_def)
  have valid: "\<forall>e \<in> set ?es. fst e < 2"
    by simp
  from pushBackAll_counts_per_class [OF built valid] obtain t where
    run: "pushBackAll_list t0 ?es = Inr t"
    and len: "length (class_entries t) = unat (2 :: 64 word)"
    and exact: "length ?es < 2 ^ 64 \<longrightarrow>
          (\<forall>c. c < 2 \<longrightarrow> unat (class_entries t ! unat c) = calls_for ?es c)"
    and flat: "length (rots t) = length ?es" "length (iover_rots t) = length ?es"
    by blast
  from exact have all: "unat (class_entries t ! unat c) = calls_for ?es c" if "c < 2" for c
    using that by simp
  have "unat (class_entries t ! unat (0 :: 64 word)) = calls_for ?es 0"
    by (rule all) simp
  moreover have "unat (class_entries t ! unat (1 :: 64 word)) = calls_for ?es 1"
    by (rule all) simp
  ultimately have "unat (class_entries t ! 0) = 3" and "unat (class_entries t ! 1) = 2"
    by (simp_all add: calls_for_def)
  then show ?thesis
    using built run len flat by auto
qed

text \<open>
  C10. A call of \<^verbatim>\<open>pushBackAll\<close> with a class below the length of \<^verbatim>\<open>class_entries\<close>
  returns, and changes this and nothing else: the counter of that class is one higher,
  every other counter is as before, each of the five flat sequences has the
  corresponding argument appended, and \<^verbatim>\<open>class_idx\<close>, \<^verbatim>\<open>orientation_num\<close> and
  \<^verbatim>\<open>orientationNumAllClasses\<close> are as before.
\<close>

theorem pushBackAll_frame:
  assumes "unat iclass < length (class_entries t)"
  shows "\<exists>t'. pushBackAll t iclass r ti p ic io = Inr t'
     \<and> length (class_entries t') = length (class_entries t)
     \<and> class_entries t' ! unat iclass = class_entries t ! unat iclass + 1
     \<and> (\<forall>c. c \<noteq> unat iclass \<longrightarrow> class_entries t' ! c = class_entries t ! c)
     \<and> rots t' = rots t @ [r]
     \<and> tilts t' = tilts t @ [ti]
     \<and> psis t' = psis t @ [p]
     \<and> iorientclasses t' = iorientclasses t @ [ic]
     \<and> iover_rots t' = iover_rots t @ [io]
     \<and> class_idx t' = class_idx t
     \<and> orientation_num t' = orientation_num t
     \<and> orientationNumAllClasses t' = orientationNumAllClasses t"
  using assms by (simp add: pushBackAll_def)

theorem pushBackAll_frame_witness:
  "\<exists>t'. pushBackAll
       \<lparr>orientation_num = [4, 5], orientationNumAllClasses = 9,
        rots = [10 :: nat], tilts = [20], psis = [30], iorientclasses = [1],
        iover_rots = [0], class_entries = [1, 0], class_idx = [0, 0]\<rparr>
       1 11 21 31 2 3 = Inr t'
     \<and> class_entries t' = [1, 1] \<and> rots t' = [10, 11] \<and> tilts t' = [20, 21]
     \<and> psis t' = [30, 31] \<and> iorientclasses t' = [1, 2] \<and> iover_rots t' = [0, 3]
     \<and> class_idx t' = [0, 0] \<and> orientation_num t' = [4, 5]
     \<and> orientationNumAllClasses t' = 9"
proof -
  let ?t = "\<lparr>orientation_num = [4, 5], orientationNumAllClasses = 9,
        rots = [10 :: nat], tilts = [20], psis = [30], iorientclasses = [1],
        iover_rots = [0], class_entries = [1, 0], class_idx = [0, 0]\<rparr>"
  have "unat (1 :: 64 word) < length (class_entries ?t)"
    by simp
  from pushBackAll_frame [OF this, of 11 21 31 2 3] obtain t' where
    run: "pushBackAll ?t 1 11 21 31 2 3 = Inr t'"
    and len: "length (class_entries t') = length (class_entries ?t)"
    and own: "class_entries t' ! unat (1 :: 64 word) = class_entries ?t ! unat (1 :: 64 word) + 1"
    and others: "\<forall>c. c \<noteq> unat (1 :: 64 word) \<longrightarrow> class_entries t' ! c = class_entries ?t ! c"
    and rest: "rots t' = rots ?t @ [11]" "tilts t' = tilts ?t @ [21]" "psis t' = psis ?t @ [31]"
      "iorientclasses t' = iorientclasses ?t @ [2]" "iover_rots t' = iover_rots ?t @ [3]"
      "class_idx t' = class_idx ?t" "orientation_num t' = orientation_num ?t"
      "orientationNumAllClasses t' = orientationNumAllClasses ?t"
    by blast
  from others have zero: "class_entries t' ! 0 = 1"
    by simp
  from own have one: "class_entries t' ! 1 = 1"
    by simp
  have "class_entries t' = [1, 1]"
    using len zero one by (simp add: list_eq_iff_nth_eq less_Suc_eq)
  then show ?thesis
    using run rest by simp
qed

lemma vector_range_ok:
  "start \<le> end_i \<Longrightarrow> unat end_i \<le> length v \<Longrightarrow>
   vector_range v start end_i = Inr (take (unat end_i - unat start) (drop (unat start) v))"
  by (simp add: vector_range_def word_le_nat_alt)

lemma sub_range_take_drop:
  "j \<le> length v \<Longrightarrow> sub_range (take (j - i) (drop i v)) v i j"
  by (auto simp: sub_range_def list_eq_iff_nth_eq)

lemma sub_range_length: "sub_range s v i j \<Longrightarrow> length s = j - i"
  by (simp add: sub_range_def)

lemma sub_range_nth: "sub_range s v i j \<Longrightarrow> k < j - i \<Longrightarrow> s ! k = v ! (i + k)"
  by (simp add: sub_range_def)

lemma slice_result:
  assumes order: "start \<le> end_i"
    and bound: "unat end_i \<le> length (rots parent)" "unat end_i \<le> length (tilts parent)"
      "unat end_i \<le> length (psis parent)" "unat end_i \<le> length (iorientclasses parent)"
      "unat end_i \<le> length (iover_rots parent)"
  shows "ProjectionParams_slice parent start end_i uninit =
     Inr \<lparr>orientation_num = [0], orientationNumAllClasses = uninit,
          rots = take (unat end_i - unat start) (drop (unat start) (rots parent)),
          tilts = take (unat end_i - unat start) (drop (unat start) (tilts parent)),
          psis = take (unat end_i - unat start) (drop (unat start) (psis parent)),
          iorientclasses =
            take (unat end_i - unat start) (drop (unat start) (iorientclasses parent)),
          iover_rots = take (unat end_i - unat start) (drop (unat start) (iover_rots parent)),
          class_entries = [end_i - start], class_idx = [0]\<rparr>"
  using bound by (simp add: ProjectionParams_slice_def vector_range_ok [OF order] and_then_simps)

text \<open>
  C6, as amended. For a parent whose five flat sequences have length \<open>L\<close> and
  \<open>start \<le> end \<le> L\<close>, the slicing constructor returns a table whose five flat
  sequences have length \<open>end - start\<close> and are, element for element, the parent's from
  position \<open>start\<close> up to \<open>end\<close>; \<^verbatim>\<open>class_entries\<close> is \<open>[end - start]\<close> and
  \<^verbatim>\<open>class_idx\<close> is \<open>[0]\<close>. \<^verbatim>\<open>orientation_num\<close> has one entry, for the one class, and
  that entry is \<open>0\<close>: \<^verbatim>\<open>orientation_num(1)\<close> builds a vector of one value-initialised
  element, not the value 1.
\<close>

theorem slice_is_sub_range:
  assumes order: "start \<le> end_i" and bound: "unat end_i \<le> L"
    and l1: "length (rots parent) = L" and l2: "length (tilts parent) = L"
    and l3: "length (psis parent) = L" and l4: "length (iorientclasses parent) = L"
    and l5: "length (iover_rots parent) = L"
  shows "\<exists>t. ProjectionParams_slice parent start end_i uninit = Inr t
     \<and> sub_range (rots t) (rots parent) (unat start) (unat end_i)
     \<and> sub_range (tilts t) (tilts parent) (unat start) (unat end_i)
     \<and> sub_range (psis t) (psis parent) (unat start) (unat end_i)
     \<and> sub_range (iorientclasses t) (iorientclasses parent) (unat start) (unat end_i)
     \<and> sub_range (iover_rots t) (iover_rots parent) (unat start) (unat end_i)
     \<and> length (rots t) = unat end_i - unat start
     \<and> length (tilts t) = unat end_i - unat start
     \<and> length (psis t) = unat end_i - unat start
     \<and> length (iorientclasses t) = unat end_i - unat start
     \<and> length (iover_rots t) = unat end_i - unat start
     \<and> length (orientation_num t) = 1 \<and> orientation_num t = [0]
     \<and> class_entries t = [end_i - start]
     \<and> unat (end_i - start) = unat end_i - unat start
     \<and> class_idx t = [0]"
proof -
  have diff: "unat (end_i - start) = unat end_i - unat start"
    using order by (simp add: unat_sub)
  have run: "ProjectionParams_slice parent start end_i uninit =
     Inr \<lparr>orientation_num = [0], orientationNumAllClasses = uninit,
          rots = take (unat end_i - unat start) (drop (unat start) (rots parent)),
          tilts = take (unat end_i - unat start) (drop (unat start) (tilts parent)),
          psis = take (unat end_i - unat start) (drop (unat start) (psis parent)),
          iorientclasses =
            take (unat end_i - unat start) (drop (unat start) (iorientclasses parent)),
          iover_rots = take (unat end_i - unat start) (drop (unat start) (iover_rots parent)),
          class_entries = [end_i - start], class_idx = [0]\<rparr>"
    using bound l1 l2 l3 l4 l5 by (intro slice_result [OF order]) simp_all
  show ?thesis
    using bound l1 l2 l3 l4 l5 diff
    by (simp add: run sub_range_take_drop)
qed

text \<open>
  The scenario of the specification: the slice from 2 to 5 of a table of five entries
  has three entries, those at the positions 2, 3 and 4 of the parent.
\<close>

theorem slice_is_sub_range_witness:
  "\<exists>t. ProjectionParams_slice example_table 2 5 77 = Inr t
     \<and> rots t = [12, 13, 14] \<and> tilts t = [22, 23, 24] \<and> psis t = [32, 33, 34]
     \<and> iorientclasses t = [2, 2, 3] \<and> iover_rots t = [0, 1, 0]
     \<and> orientation_num t = [0] \<and> class_entries t = [3] \<and> class_idx t = [0]"
proof -
  let ?p = example_table
  have order: "(2 :: 64 word) \<le> 5" and bound: "unat (5 :: 64 word) \<le> 5"
    by simp_all
  have lens: "length (rots ?p) = 5" "length (tilts ?p) = 5" "length (psis ?p) = 5"
    "length (iorientclasses ?p) = 5" "length (iover_rots ?p) = 5"
    by (simp_all add: example_table_def)
  from slice_is_sub_range [OF order bound lens, of 77] obtain t where
    run: "ProjectionParams_slice ?p 2 5 77 = Inr t"
    and sub: "sub_range (rots t) (rots ?p) (unat (2 :: 64 word)) (unat (5 :: 64 word))"
      "sub_range (tilts t) (tilts ?p) (unat (2 :: 64 word)) (unat (5 :: 64 word))"
      "sub_range (psis t) (psis ?p) (unat (2 :: 64 word)) (unat (5 :: 64 word))"
      "sub_range (iorientclasses t) (iorientclasses ?p) (unat (2 :: 64 word)) (unat (5 :: 64 word))"
      "sub_range (iover_rots t) (iover_rots ?p) (unat (2 :: 64 word)) (unat (5 :: 64 word))"
    and rest: "orientation_num t = [0]" "class_entries t = [5 - 2]" "class_idx t = [0]"
    by auto
  have upt: "[0 ..< 3] = [0, 1, 2 :: nat]"
    by (simp add: upt_rec)
  from sub have "rots t = [12, 13, 14]" "tilts t = [22, 23, 24]" "psis t = [32, 33, 34]"
    "iorientclasses t = [2, 2, 3]" "iover_rots t = [0, 1, 0]"
    by (simp_all add: sub_range_def upt example_table_def)
  then show ?thesis
    using run rest by simp
qed

text \<open>
  C6 as the specification states it, with \<^verbatim>\<open>orientation_num\<close> holding 1, fails on the
  same slice: the only entry of \<^verbatim>\<open>orientation_num\<close> is 0.
\<close>

theorem slice_orientation_num_counterexample:
  "(case ProjectionParams_slice example_table 2 5 77 of
      Inl e \<Rightarrow> False
    | Inr t \<Rightarrow> orientation_num t = [0] \<and> orientation_num t \<noteq> [1] \<and> 1 \<notin> set (orientation_num t))"
  by (simp add: ProjectionParams_slice_def vector_range_def and_then_simps example_table_def)






end
